theory Spec2Isabelle
  imports Main "HOL-Library.Multiset"
begin

section \<open>Python values\<close>

text \<open>
  The modules under verification pass plain Python dictionaries around (prescriptions,
  FHIR resources, sync jobs, queue entries). They are modelled as JSON values: a
  dictionary is an association list read with \<open>map_of\<close> (the first binding of a key
  wins; the dictionaries built here never repeat a key). Strings are lists of
  characters; the payloads of the formats involved are ASCII text.
\<close>

datatype json =
    JNull
  | JBool bool
  | JInt int
  | JStr string
  | JList "json list"
  | JDict "(string \<times> json) list"

text \<open>A raised exception: its class and the text \<open>str(e)\<close> gives.\<close>

datatype exn = Raised (exn_class: string) (exn_str: string)

fun type_name :: "json \<Rightarrow> string" where
  "type_name JNull = ''NoneType''"
| "type_name (JBool _) = ''bool''"
| "type_name (JInt _) = ''int''"
| "type_name (JStr _) = ''str''"
| "type_name (JList _) = ''list''"
| "type_name (JDict _) = ''dict''"

text \<open>Truth value of an object in a condition (\<open>if x:\<close>, \<open>not x\<close>).\<close>

fun truthy :: "json \<Rightarrow> bool" where
  "truthy JNull = False"
| "truthy (JBool b) = b"
| "truthy (JInt i) = (i \<noteq> 0)"
| "truthy (JStr s) = (s \<noteq> [])"
| "truthy (JList xs) = (xs \<noteq> [])"
| "truthy (JDict kvs) = (kvs \<noteq> [])"

text \<open>\<open>d.get(k, default)\<close>: only a dictionary has the method.\<close>

fun get_default :: "json \<Rightarrow> string \<Rightarrow> json \<Rightarrow> exn + json" where
  "get_default (JDict kvs) k d = Inr (case map_of kvs k of None \<Rightarrow> d | Some v \<Rightarrow> v)"
| "get_default v k d =
     Inl (Raised ''AttributeError''
       ([CHR 0x27] @ type_name v @ [CHR 0x27] @ '' object has no attribute '' @
        [CHR 0x27] @ ''get'' @ [CHR 0x27]))"

text \<open>\<open>d.get(k)\<close> is \<open>d.get(k, None)\<close>.\<close>

definition get :: "json \<Rightarrow> string \<Rightarrow> exn + json" where
  "get v k = get_default v k JNull"

text \<open>\<open>k in d\<close> for a dictionary \<open>d\<close>.\<close>

definition has_key :: "(string \<times> json) list \<Rightarrow> string \<Rightarrow> bool" where
  "has_key kvs k = (map_of kvs k \<noteq> None)"

text \<open>\<open>x[0]\<close>: the first element of a list or string, an error otherwise.\<close>

fun index0 :: "json \<Rightarrow> exn + json" where
  "index0 (JList []) = Inl (Raised ''IndexError'' ''list index out of range'')"
| "index0 (JList (x # _)) = Inr x"
| "index0 (JStr []) = Inl (Raised ''IndexError'' ''string index out of range'')"
| "index0 (JStr (c # _)) = Inr (JStr [c])"
| "index0 (JDict kvs) = Inl (Raised ''KeyError'' ''0'')"
| "index0 v =
     Inl (Raised ''TypeError''
       ([CHR 0x27] @ type_name v @ [CHR 0x27] @ '' object is not subscriptable''))"

text \<open>\<open>d[k]\<close> with a string key: only a dictionary holding the key answers.\<close>

fun subscript :: "json \<Rightarrow> string \<Rightarrow> exn + json" where
  "subscript (JDict kvs) k =
     (case map_of kvs k of
        None \<Rightarrow> Inl (Raised ''KeyError'' ([CHR 0x27] @ k @ [CHR 0x27]))
      | Some v \<Rightarrow> Inr v)"
| "subscript (JList _) k =
     Inl (Raised ''TypeError'' ''list indices must be integers or slices, not str'')"
| "subscript (JStr _) k =
     Inl (Raised ''TypeError'' ''string indices must be integers, not str'')"
| "subscript v k =
     Inl (Raised ''TypeError''
       ([CHR 0x27] @ type_name v @ [CHR 0x27] @ '' object is not subscriptable''))"

text \<open>Sequencing of computations that may raise.\<close>

definition bind :: "exn + 'a \<Rightarrow> ('a \<Rightarrow> exn + 'b) \<Rightarrow> exn + 'b" where
  "bind m f = (case m of Inl e \<Rightarrow> Inl e | Inr x \<Rightarrow> f x)"

section \<open>Dates and decimal numerals\<close>

text \<open>
  A \<open>datetime\<close> value. Python's type keeps \<open>1 \<le> year \<le> 9999\<close>, \<open>1 \<le> month \<le> 12\<close>,
  \<open>1 \<le> day \<le> 31\<close>, \<open>hour < 24\<close>, \<open>minute < 60\<close>, \<open>second < 60\<close> and
  \<open>microsecond < 1000000\<close>.
\<close>

record datetime =
  year :: nat
  month :: nat
  day :: nat
  hour :: nat
  minute :: nat
  second :: nat
  microsecond :: nat

definition digit :: "nat \<Rightarrow> char" where
  "digit n = ''0123456789'' ! (n mod 10)"

text \<open>The decimal numeral of a number, as \<open>str(n)\<close> prints it.\<close>

fun dec :: "nat \<Rightarrow> string" where
  "dec n = (if n < 10 then [digit n] else dec (n div 10) @ [digit n])"

declare dec.simps [simp del]

definition dec_int :: "int \<Rightarrow> string" where
  "dec_int i = (if i < 0 then ''-'' @ dec (nat (- i)) else dec (nat i))"

text \<open>\<open>sep.join(xs)\<close>\<close>

fun join :: "string \<Rightarrow> string list \<Rightarrow> string" where
  "join sep [] = []"
| "join sep [x] = x"
| "join sep (x # y # ys) = x @ sep @ join sep (y # ys)"

text \<open>
  \<open>repr(x)\<close> and \<open>str(x)\<close>, which an f-string applies to the value it
  interpolates. A string inside a list or dictionary is printed between single quotes;
  the escapes Python adds when such a string itself holds a quote, a backslash or a
  control character are not modelled.
\<close>

fun repr :: "json \<Rightarrow> string" where
  "repr JNull = ''None''"
| "repr (JBool b) = (if b then ''True'' else ''False'')"
| "repr (JInt i) = dec_int i"
| "repr (JStr s) = [CHR 0x27] @ s @ [CHR 0x27]"
| "repr (JList xs) = ''['' @ join '', '' (map repr xs) @ '']''"
| "repr (JDict kvs) =
     ''{'' @ join '', '' (map (\<lambda>(k, v). [CHR 0x27] @ k @ [CHR 0x27] @ '': '' @ repr v) kvs) @ ''}''"

definition str_of :: "json \<Rightarrow> string" where
  "str_of v = (case v of JStr s \<Rightarrow> s | _ \<Rightarrow> repr v)"

text \<open>The last \<open>k\<close> decimal digits of \<open>n\<close>, zero padded (\<open>%02d\<close> and the like).\<close>

fun pad :: "nat \<Rightarrow> nat \<Rightarrow> string" where
  "pad 0 n = []"
| "pad (Suc k) n = pad k (n div 10) @ [digit n]"

text \<open>\<open>strftime("%Y%m%d")\<close>\<close>

definition strftime_Ymd :: "datetime \<Rightarrow> string" where
  "strftime_Ymd t = pad 4 (year t) @ pad 2 (month t) @ pad 2 (day t)"

text \<open>\<open>strftime("%Y%m%d%H%M%S")\<close>\<close>

definition strftime_YmdHMS :: "datetime \<Rightarrow> string" where
  "strftime_YmdHMS t =
     strftime_Ymd t @ pad 2 (hour t) @ pad 2 (minute t) @ pad 2 (second t)"

text \<open>\<open>strftime("%Y%m%d%H%M%S%f")\<close>\<close>

definition strftime_YmdHMSf :: "datetime \<Rightarrow> string" where
  "strftime_YmdHMSf t = strftime_YmdHMS t @ pad 6 (microsecond t)"

text \<open>\<open>isoformat()\<close>: the fraction is printed only when it is not zero.\<close>

definition isoformat :: "datetime \<Rightarrow> string" where
  "isoformat t =
     pad 4 (year t) @ ''-'' @ pad 2 (month t) @ ''-'' @ pad 2 (day t) @ ''T'' @
     pad 2 (hour t) @ '':'' @ pad 2 (minute t) @ '':'' @ pad 2 (second t) @
     (if microsecond t = 0 then [] else ''.'' @ pad 6 (microsecond t))"

text \<open>
  The outside world (the clock, the remote EHR systems) is a state of type \<open>'w\<close> that
  every effect reads and advances. \<open>datetime.utcnow()\<close> is such an effect.
\<close>

type_synonym 'w clock = "'w \<Rightarrow> datetime \<times> 'w"

text \<open>A call to a remote collaborator returns a JSON value or raises.\<close>

type_synonym 'w remote = "'w \<Rightarrow> (exn + json) \<times> 'w"

text \<open>ASCII \<open>str.lower()\<close> and \<open>str.upper()\<close>.\<close>

definition ascii_uppercase :: string where
  "ascii_uppercase = ''ABCDEFGHIJKLMNOPQRSTUVWXYZ''"

definition ascii_lowercase :: string where
  "ascii_lowercase = ''abcdefghijklmnopqrstuvwxyz''"

definition is_ascii_upper :: "char \<Rightarrow> bool" where
  "is_ascii_upper c = (c \<in> set ascii_uppercase)"

definition is_ascii_lower :: "char \<Rightarrow> bool" where
  "is_ascii_lower c = (c \<in> set ascii_lowercase)"

definition lower_char :: "char \<Rightarrow> char" where
  "lower_char c =
     (case map_of (zip ascii_uppercase ascii_lowercase) c of None \<Rightarrow> c | Some d \<Rightarrow> d)"

definition upper_char :: "char \<Rightarrow> char" where
  "upper_char c =
     (case map_of (zip ascii_lowercase ascii_uppercase) c of None \<Rightarrow> c | Some d \<Rightarrow> d)"

definition lower :: "string \<Rightarrow> string" where
  "lower s = map lower_char s"

definition upper :: "string \<Rightarrow> string" where
  "upper s = map upper_char s"

section \<open>HL7 v2: validation and parsing\<close>

text \<open>
  \<open>s.split(sep)\<close> for a one-character separator: every occurrence splits, so the
  result has one piece more than there are separators.
\<close>

fun split_on :: "char \<Rightarrow> string \<Rightarrow> string list" where
  "split_on c [] = [[]]"
| "split_on c (x # xs) =
     (if x = c then [] # split_on c xs
      else (x # hd (split_on c xs)) # tl (split_on c xs))"

text \<open>
  \<open>s.strip()\<close>. The white space of ASCII text: tab, line feed, vertical tab, form
  feed, carriage return, the separators \<open>0x1c\<close> to \<open>0x1f\<close>, and the space.
\<close>

definition is_space :: "char \<Rightarrow> bool" where
  "is_space c =
     (c \<in> set [CHR 0x09, CHR 0x0A, CHR 0x0B, CHR 0x0C, CHR 0x0D, CHR 0x1C, CHR 0x1D,
                CHR 0x1E, CHR 0x1F, CHR 0x20])"

definition strip :: "string \<Rightarrow> string" where
  "strip s = rev (dropWhile is_space (rev (dropWhile is_space s)))"

text \<open>
  \<open>s.isupper()\<close>: there is a cased character and no cased character is lower case
  (digits and punctuation are not cased).
\<close>

definition isupper :: "string \<Rightarrow> bool" where
  "isupper s = (list_ex is_ascii_upper s \<and> list_all (\<lambda>c. \<not> is_ascii_lower c) s)"

definition startswith :: "string \<Rightarrow> string \<Rightarrow> bool" where
  "startswith s p = (take (length p) s = p)"

text \<open>
  The loop of \<open>validate_message\<close> over the lines, \<open>i\<close> the index \<open>enumerate\<close>
  gives the first of them.
\<close>

fun segment_errors :: "nat \<Rightarrow> string list \<Rightarrow> string list" where
  "segment_errors i [] = []"
| "segment_errors i (line # lines) =
     (if strip line = [] then []
      else if length line < 3 then [''Line '' @ dec (i + 1) @ '': Segment too short'']
      else if \<not> isupper (take 3 line)
        then [''Line '' @ dec (i + 1) @ '': Invalid segment ID '' @ [CHR 0x27] @ take 3 line @
              [CHR 0x27]]
      else []) @ segment_errors (Suc i) lines"

text \<open>
  \<open>HL7Validator.validate_message\<close>. The grammar-level parser is the library's
  \<open>parse_message\<close> (hl7apy, strict validation), a parameter here: it returns a
  message object or raises. The validator only looks at whether it raised.
\<close>

definition validate_message :: "(string \<Rightarrow> exn + 'm) \<Rightarrow> string \<Rightarrow> bool \<times> string list" where
  "validate_message lib_parse hl7_string =
     (if hl7_string = [] then (False, [''Empty message''])
      else
        (let errors1 =
               (if \<not> startswith hl7_string ''MSH''
                then [''Message must start with MSH segment''] else []);
             lines = split_on (CHR 0x0D) hl7_string;
             errors2 =
               errors1 @
               (if length lines < 2 then [''Message must contain at least 2 segments''] else []);
             errors3 = errors2 @ segment_errors 0 lines;
             errors =
               errors3 @
               (case lib_parse hl7_string of
                  Inl e \<Rightarrow> [''Parsing error: '' @ exn_str e]
                | Inr m \<Rightarrow> [])
         in (length errors = 0, errors)))"





text \<open>
  The dictionary \<open>_segment_to_dict\<close> makes of a segment; its entry \<open>fields\<close> is
  \<open>field_dict\<close> here. A field is entered under the segment name and the index
  \<open>enumerate(segment.children, start=1)\<close> gives it, unless its value is empty.
\<close>

record segment_dict =
  segment_id :: string
  field_dict :: "(string \<times> string) list"



record HL7Message =
  message_type :: string
  message_id :: string
  timestamp :: datetime
  sending_application :: string
  sending_facility :: string
  receiving_application :: string
  receiving_facility :: string
  segments :: "segment_dict list"
  raw_message :: string










section \<open>The submission gateway\<close>

datatype PrescriptionFormat = NCPDP_SCRIPT | FHIR_R4 | HL7_V2 | JSON

fun format_value :: "PrescriptionFormat \<Rightarrow> string" where
  "format_value NCPDP_SCRIPT = ''ncpdp_script''"
| "format_value FHIR_R4 = ''fhir_r4''"
| "format_value HL7_V2 = ''hl7_v2''"
| "format_value JSON = ''json''"

datatype SubmissionStatus = RECEIVED | VALIDATED | PROCESSING | TRANSMITTED | ERROR | REJECTED

text \<open>A payload is a dictionary; \<open>d.get(k)\<close> on it cannot raise.\<close>

type_synonym dict = "(string \<times> json) list"

definition dget :: "dict \<Rightarrow> string \<Rightarrow> json" where
  "dget d k = (case map_of d k of None \<Rightarrow> JNull | Some v \<Rightarrow> v)"

text \<open>
  \<open>uuid.uuid4()\<close> is an effect that yields the 128-bit number of a fresh UUID;
  \<open>str\<close> prints it as 32 lower-case hexadecimal digits in groups of 8, 4, 4, 4
  and 12.
\<close>

type_synonym 'w uuid_source = "'w \<Rightarrow> nat \<times> 'w"

definition hex_digit :: "nat \<Rightarrow> char" where
  "hex_digit n = ''0123456789abcdef'' ! (n mod 16)"

fun hex_pad :: "nat \<Rightarrow> nat \<Rightarrow> string" where
  "hex_pad 0 n = []"
| "hex_pad (Suc k) n = hex_pad k (n div 16) @ [hex_digit n]"

definition str_uuid :: "nat \<Rightarrow> string" where
  "str_uuid u =
     (let h = hex_pad 32 u
      in take 8 h @ ''-'' @ take 4 (drop 8 h) @ ''-'' @ take 4 (drop 12 h) @ ''-'' @
         take 4 (drop 16 h) @ ''-'' @ drop 20 h)"

text \<open>
  The optional validation collaborator: \<open>validate(prescription_data, format)\<close> is a
  call that returns some object or raises.
\<close>

type_synonym 'w validation_service = "dict \<Rightarrow> PrescriptionFormat \<Rightarrow> 'w remote"

text \<open>\<open>errors.extend(x)\<close>: the elements \<open>x\<close> yields when iterated.\<close>

fun iterate :: "json \<Rightarrow> exn + json list" where
  "iterate (JList xs) = Inr xs"
| "iterate (JDict kvs) = Inr (map (\<lambda>kv. JStr (fst kv)) kvs)"
| "iterate (JStr s) = Inr (map (\<lambda>c. JStr [c]) s)"
| "iterate v =
     Inl (Raised ''TypeError''
       ([CHR 0x27] @ type_name v @ [CHR 0x27] @ '' object is not iterable''))"

definition field_error :: "string \<Rightarrow> string \<Rightarrow> json" where
  "field_error f e = JDict [(''field'', JStr f), (''error'', JStr e)]"

definition required_fields :: "string list" where
  "required_fields =
     [''doctor_id'', ''doctor_name'', ''patient_id'', ''patient_name'', ''medications'',
      ''diagnosis'']"

text \<open>
  The format checks of \<open>_validate_prescription\<close>, the part before the validation
  service is consulted. Only the JSON branch looks at \<open>medications\<close>; there is no
  branch for HL7 v2.
\<close>

definition format_errors :: "dict \<Rightarrow> PrescriptionFormat \<Rightarrow> json list" where
  "format_errors prescription_data format =
     (case format of
        JSON \<Rightarrow>
          map (\<lambda>f. field_error f ''Required field missing'')
            (filter (\<lambda>f. \<not> has_key prescription_data f) required_fields) @
          (if has_key prescription_data ''medications'' then
             (case dget prescription_data ''medications'' of
                JList ms \<Rightarrow>
                  if length ms = 0
                  then [field_error ''medications'' ''At least one medication required'']
                  else []
              | _ \<Rightarrow> [field_error ''medications'' ''Must be a list''])
           else [])
      | NCPDP_SCRIPT \<Rightarrow>
          if \<not> truthy (dget prescription_data ''xml_content'')
          then [field_error ''xml_content'' ''NCPDP SCRIPT XML content required'']
          else []
      | FHIR_R4 \<Rightarrow>
          if \<not> truthy (dget prescription_data ''resourceType'')
          then [field_error ''resourceType'' ''FHIR resourceType required'']
          else []
      | HL7_V2 \<Rightarrow> [])"

text \<open>
  \<open>_validate_prescription\<close>: the result dictionary \<open>{"valid": ..., "errors": ...}\<close>
  as a pair. The service is asked only when the format checks found nothing.
\<close>

definition validate_prescription ::
  "'w validation_service option \<Rightarrow> dict \<Rightarrow> PrescriptionFormat \<Rightarrow> 'w \<Rightarrow>
   (exn + bool \<times> json list) \<times> 'w" where
  "validate_prescription validation_service prescription_data format w =
     (let errors = format_errors prescription_data format
      in case validation_service of
           Some validate \<Rightarrow>
             if errors = [] then
               (let (r, w1) = validate prescription_data format w
                in (bind r (\<lambda>service_result.
                      bind (subscript service_result ''valid'') (\<lambda>v.
                        if \<not> truthy v then
                          bind (get_default service_result ''errors'' (JList [])) (\<lambda>es.
                            bind (iterate es) (\<lambda>more.
                              Inr (length (errors @ more) = 0, errors @ more)))
                        else Inr (length errors = 0, errors))), w1))
             else (Inr (length errors = 0, errors), w)
         | None \<Rightarrow> (Inr (length errors = 0, errors), w))"

text \<open>The three format parsers are stubs in the source: each returns \<open>{}\<close>.\<close>

definition parse_ncpdp_to_json :: "dict \<Rightarrow> dict" where
  "parse_ncpdp_to_json ncpdp_data = []"

definition parse_fhir_to_json :: "dict \<Rightarrow> dict" where
  "parse_fhir_to_json fhir_data = []"

definition parse_hl7_to_json :: "dict \<Rightarrow> dict" where
  "parse_hl7_to_json hl7_data = []"

fun normalize_prescription :: "dict \<Rightarrow> PrescriptionFormat \<Rightarrow> dict" where
  "normalize_prescription prescription_data JSON = prescription_data"
| "normalize_prescription prescription_data NCPDP_SCRIPT = parse_ncpdp_to_json prescription_data"
| "normalize_prescription prescription_data FHIR_R4 = parse_fhir_to_json prescription_data"
| "normalize_prescription prescription_data HL7_V2 = parse_hl7_to_json prescription_data"

text \<open>\<open>_generate_tx_id\<close>: the date, then the first eight characters of a UUID in upper case.\<close>

definition generate_tx_id :: "'w clock \<Rightarrow> 'w uuid_source \<Rightarrow> 'w \<Rightarrow> string \<times> 'w" where
  "generate_tx_id utcnow uuid4 w =
     (let (t, w1) = utcnow w;
          timestamp = strftime_Ymd t;
          (u, w2) = uuid4 w1;
          unique_id = upper (take 8 (str_uuid u))
      in (''RX-'' @ timestamp @ ''-'' @ unique_id, w2))"

text \<open>
  \<open>_store_prescription\<close> builds the record below and drops it (the insert is commented
  out in the source); the default of \<open>prescription_date\<close> and \<open>created_at\<close> read the
  clock. Nothing in it can raise.
\<close>

definition store_prescription ::
  "'w clock \<Rightarrow> string \<Rightarrow> dict \<Rightarrow> string \<Rightarrow> string \<Rightarrow> string \<Rightarrow> string \<Rightarrow> 'w \<Rightarrow>
   dict \<times> 'w" where
  "store_prescription utcnow prescription_tx_id prescription_data submitter_id submitter_type
     original_format submission_id w =
     (let (t1, w1) = utcnow w;
          (t2, w2) = utcnow w1;
          prescription_record =
            [(''prescription_tx_id'', JStr prescription_tx_id),
             (''submission_id'', JStr submission_id),
             (''doctor_id'', dget prescription_data ''doctor_id''),
             (''doctor_name'', dget prescription_data ''doctor_name''),
             (''doctor_license'', dget prescription_data ''doctor_license''),
             (''patient_id'', dget prescription_data ''patient_id''),
             (''patient_name'', dget prescription_data ''patient_name''),
             (''diagnosis'', dget prescription_data ''diagnosis''),
             (''medications'', dget prescription_data ''medications''),
             (''prescription_date'',
                (case map_of prescription_data ''prescription_date'' of
                   None \<Rightarrow> JStr (isoformat t1) | Some v \<Rightarrow> v)),
             (''expiry_date'', dget prescription_data ''expiry_date''),
             (''status'', JStr ''active''),
             (''is_dispensed'', JBool False),
             (''submitter_id'', JStr submitter_id),
             (''submitter_type'', JStr submitter_type),
             (''original_format'', JStr original_format),
             (''created_at'', JStr (isoformat t2))]
      in (prescription_record, w2))"

text \<open>
  \<open>_forward_to_pharmacy\<close> only logs one of two lines; the value says which: whether a
  pharmacy is designated.
\<close>

definition forward_to_pharmacy :: "string \<Rightarrow> dict \<Rightarrow> bool" where
  "forward_to_pharmacy prescription_tx_id prescription_data =
     truthy (dget prescription_data ''pharmacy_id'')"

text \<open>
  The dataclass \<open>SubmissionResponse\<close>. Its fields \<open>status\<close> and \<open>errors\<close> are
  named \<open>response_status\<close> and \<open>response_errors\<close> here (a sync job has a \<open>status\<close>
  of its own); \<open>errors\<close> is \<open>None\<close> by default.
\<close>

record SubmissionResponse =
  submission_id :: string
  prescription_tx_id :: string
  response_status :: SubmissionStatus
  message :: string
  timestamp :: datetime
  response_errors :: "json list option"

text \<open>The body of the \<open>try\<close> of \<open>submit_prescription\<close>.\<close>

definition submit_try ::
  "'w clock \<Rightarrow> 'w uuid_source \<Rightarrow> 'w validation_service option \<Rightarrow> string \<Rightarrow> datetime \<Rightarrow>
   dict \<Rightarrow> PrescriptionFormat \<Rightarrow> string \<Rightarrow> string \<Rightarrow> 'w \<Rightarrow>
   (exn + SubmissionResponse) \<times> 'w" where
  "submit_try utcnow uuid4 validation_service sid ts prescription_data format submitter_id
     submitter_type w =
     (case validate_prescription validation_service prescription_data format w of
        (Inl e, w1) \<Rightarrow> (Inl e, w1)
      | (Inr (valid, errors), w1) \<Rightarrow>
          if \<not> valid then
            (Inr \<lparr>submission_id = sid, prescription_tx_id = [], response_status = REJECTED,
                  message = ''Validation failed'', timestamp = ts,
                  response_errors = Some errors\<rparr>, w1)
          else
            (let normalized_data = normalize_prescription prescription_data format;
                 (tx_id, w2) = generate_tx_id utcnow uuid4 w1;
                 (stored, w3) =
                   store_prescription utcnow tx_id normalized_data submitter_id
                     submitter_type (format_value format) sid w2;
                 forwarded = forward_to_pharmacy tx_id normalized_data
             in (Inr \<lparr>submission_id = sid, prescription_tx_id = tx_id,
                      response_status = TRANSMITTED,
                      message = ''Prescription submitted and transmitted successfully'',
                      timestamp = ts, response_errors = None\<rparr>, w3)))"

text \<open>
  \<open>submit_prescription\<close>: the submission id and the timestamp are taken before the
  \<open>try\<close>; whatever the body raises becomes an \<open>ERROR\<close> response. The result is a
  sum so that a raise that escaped would show as \<open>Inl\<close>.
\<close>

definition submit_prescription ::
  "'w clock \<Rightarrow> 'w uuid_source \<Rightarrow> 'w validation_service option \<Rightarrow> dict \<Rightarrow> PrescriptionFormat \<Rightarrow>
   string \<Rightarrow> string \<Rightarrow> 'w \<Rightarrow> (exn + SubmissionResponse) \<times> 'w" where
  "submit_prescription utcnow uuid4 validation_service prescription_data format submitter_id
     submitter_type w =
     (let (u, w1) = uuid4 w;
          sid = str_uuid u;
          (ts, w2) = utcnow w1
      in case submit_try utcnow uuid4 validation_service sid ts prescription_data format
                submitter_id submitter_type w2 of
           (Inr response, w3) \<Rightarrow> (Inr response, w3)
         | (Inl e, w3) \<Rightarrow>
             (Inr \<lparr>submission_id = sid, prescription_tx_id = [], response_status = ERROR,
                   message = ''Submission error: '' @ exn_str e, timestamp = ts,
                   response_errors = Some [JDict [(''error'', JStr (exn_str e))]]\<rparr>, w3))"

text \<open>
  The transaction id pattern \<open>RX-\d{8}-[A-F0-9]{8}\<close>, matched against the whole
  string.
\<close>

definition matches_tx_pattern :: "string \<Rightarrow> bool" where
  "matches_tx_pattern s =
     (length s = 20 \<and> take 3 s = ''RX-'' \<and>
      list_all (\<lambda>c. c \<in> set ''0123456789'') (take 8 (drop 3 s)) \<and>
      s ! 11 = CHR ''-'' \<and>
      list_all (\<lambda>c. c \<in> set ''ABCDEF0123456789'') (drop 12 s))"

section \<open>EHR connectors and the integration service\<close>

text \<open>
  An \<open>EHRConnector\<close> is an object with four mandatory methods and two optional ones
  (\<open>get_allergies\<close>, \<open>get_conditions\<close>, which only the Epic connector defines; the
  service probes for them with \<open>hasattr\<close>). Each method is a remote call.
\<close>

record 'w connector =
  get_patient :: "string \<Rightarrow> 'w remote"
  get_medications :: "string \<Rightarrow> 'w remote"
  create_prescription :: "json \<Rightarrow> 'w remote"
  get_prescription_status :: "string \<Rightarrow> 'w remote"
  get_allergies :: "(string \<Rightarrow> 'w remote) option"
  get_conditions :: "(string \<Rightarrow> 'w remote) option"

text \<open>\<open>EHRIntegrationService.connectors\<close>: connectors by lower-cased system name.\<close>

type_synonym 'w connectors = "string \<rightharpoonup> 'w connector"

definition register_connector ::
  "'w connectors \<Rightarrow> string \<Rightarrow> 'w connector \<Rightarrow> 'w connectors" where
  "register_connector cs ehr_system c = cs(lower ehr_system \<mapsto> c)"

definition get_connector :: "'w connectors \<Rightarrow> string \<Rightarrow> exn + 'w connector" where
  "get_connector cs ehr_system =
     (case cs (lower ehr_system) of
        None \<Rightarrow>
          Inl (Raised ''ValueError'' (''No connector registered for EHR system: '' @ ehr_system))
      | Some c \<Rightarrow> Inr c)"

text \<open>
  \<open>sync_prescription\<close>: the connector lookup stands before the \<open>try\<close>, so its
  \<open>ValueError\<close> escapes; every failure inside the \<open>try\<close> is turned into a result
  dictionary with \<open>success = False\<close>.
\<close>

definition sync_prescription ::
  "'w clock \<Rightarrow> 'w connectors \<Rightarrow> string \<Rightarrow> json \<Rightarrow> 'w \<Rightarrow> (exn + json) \<times> 'w" where
  "sync_prescription utcnow cs ehr_system prescription_data w =
     (case get_connector cs ehr_system of
        Inl e \<Rightarrow> (Inl e, w)
      | Inr connector \<Rightarrow>
          (let (r, w1) = create_prescription connector prescription_data w;
               (t, w2) = utcnow w1
           in case bind r (\<lambda>result. bind (get result ''id'') (\<lambda>rid.
                   bind (get result ''status'') (\<lambda>rstatus. Inr (rid, rstatus)))) of
                Inr (rid, rstatus) \<Rightarrow>
                  (Inr (JDict [(''success'', JBool True),
                               (''ehr_system'', JStr ehr_system),
                               (''ehr_prescription_id'', rid),
                               (''status'', rstatus),
                               (''synced_at'', JStr (isoformat t))]), w2)
              | Inl e \<Rightarrow>
                  (Inr (JDict [(''success'', JBool False),
                               (''ehr_system'', JStr ehr_system),
                               (''error'', JStr (exn_str e)),
                               (''synced_at'', JStr (isoformat t))]), w2)))"

subsection \<open>The patient context\<close>

text \<open>\<open>a or b\<close> on values.\<close>

definition or_else :: "json \<Rightarrow> (exn + json) \<Rightarrow> exn + json" where
  "or_else a b = (if truthy a then Inr a else b)"

text \<open>
  The generator of \<open>_extract_patient_summary\<close>: the \<open>value\<close> of the first
  identifier whose type is coded \<open>MR\<close>, \<open>None\<close> when there is none. Identifiers
  after the first match are not looked at.
\<close>

fun first_mr_value :: "json list \<Rightarrow> exn + json" where
  "first_mr_value [] = Inr JNull"
| "first_mr_value (i # is) =
     bind (get_default i ''type'' (JDict [])) (\<lambda>t.
     bind (get_default t ''coding'' (JList [JDict []])) (\<lambda>coding.
     bind (index0 coding) (\<lambda>c0.
     bind (get c0 ''code'') (\<lambda>code.
       if code = JStr ''MR'' then get i ''value'' else first_mr_value is))))"

definition extract_patient_summary :: "json \<Rightarrow> exn + json" where
  "extract_patient_summary patient_resource =
     bind (get_default patient_resource ''name'' (JList [JDict []])) (\<lambda>names.
     bind (index0 names) (\<lambda>name.
     bind (get patient_resource ''id'') (\<lambda>pid.
     bind (get_default name ''given'' (JList [JStr []])) (\<lambda>given.
     bind (index0 given) (\<lambda>first_name.
     bind (get_default name ''family'' (JStr [])) (\<lambda>last_name.
     bind (get patient_resource ''birthDate'') (\<lambda>dob.
     bind (get patient_resource ''gender'') (\<lambda>gender.
     bind (get_default patient_resource ''identifier'' (JList [])) (\<lambda>identifiers.
     bind (iterate identifiers) (\<lambda>ids.
     bind (first_mr_value ids) (\<lambda>mrn.
       Inr (JDict [(''id'', pid), (''first_name'', first_name), (''last_name'', last_name),
                   (''dob'', dob), (''gender'', gender), (''mrn'', mrn)]))))))))))))"

definition medication_summary :: "json \<Rightarrow> exn + json" where
  "medication_summary med_resource =
     bind (get_default med_resource ''medicationCodeableConcept'' (JDict [])) (\<lambda>medication.
     bind (get_default medication ''text'' (JStr ''Unknown'')) (\<lambda>name.
     bind (get_default medication ''coding'' (JList [JDict []])) (\<lambda>coding.
     bind (index0 coding) (\<lambda>c0.
     bind (get c0 ''code'') (\<lambda>code.
     bind (get med_resource ''status'') (\<lambda>st.
     bind (get_default med_resource ''dosageInstruction'' (JList [JDict []])) (\<lambda>dosages.
     bind (index0 dosages) (\<lambda>d0.
     bind (get_default d0 ''text'' (JStr [])) (\<lambda>dosage.
       Inr (JDict [(''name'', name), (''code'', code), (''status'', st),
                   (''dosage'', dosage)]))))))))))"

definition allergy_summary :: "json \<Rightarrow> exn + json" where
  "allergy_summary allergy_resource =
     bind (get_default allergy_resource ''code'' (JDict [])) (\<lambda>code.
     bind (get code ''text'') (\<lambda>text.
       or_else text
         (bind (get_default code ''coding'' (JList [JDict []])) (\<lambda>coding.
          bind (index0 coding) (\<lambda>c0. get_default c0 ''display'' (JStr ''Unknown''))))))"

definition condition_summary :: "json \<Rightarrow> exn + json" where
  "condition_summary condition_resource =
     bind (get_default condition_resource ''code'' (JDict [])) (\<lambda>code.
     bind (get_default code ''text'' (JStr ''Unknown'')) (\<lambda>name.
     bind (get_default code ''coding'' (JList [JDict []])) (\<lambda>coding.
     bind (index0 coding) (\<lambda>c0.
     bind (get c0 ''code'') (\<lambda>ccode.
     bind (get_default condition_resource ''clinicalStatus'' (JDict [])) (\<lambda>cs.
     bind (get_default cs ''coding'' (JList [JDict []])) (\<lambda>scoding.
     bind (index0 scoding) (\<lambda>s0.
     bind (get s0 ''code'') (\<lambda>st.
       Inr (JDict [(''name'', name), (''code'', ccode), (''status'', st)]))))))))))"

text \<open>The loops \<open>for r in resources: summaries.append(...)\<close>: the first failure ends them.\<close>

fun summaries :: "(json \<Rightarrow> exn + json) \<Rightarrow> json list \<Rightarrow> exn + json list" where
  "summaries f [] = Inr []"
| "summaries f (r # rs) = bind (f r) (\<lambda>x. bind (summaries f rs) (\<lambda>xs. Inr (x # xs)))"

definition extract_summaries :: "(json \<Rightarrow> exn + json) \<Rightarrow> json \<Rightarrow> exn + json" where
  "extract_summaries f resources =
     bind (iterate resources) (\<lambda>rs. bind (summaries f rs) (\<lambda>xs. Inr (JList xs)))"

text \<open>
  An optional capability of \<open>get_patient_context\<close>: without the method
  (\<open>hasattr\<close> is false) the value stays \<open>[]\<close> and no call is made; with it, the call
  is made and whatever it raises is swallowed by the bare \<open>except\<close>, the value staying
  \<open>[]\<close>.
\<close>

definition optional_call ::
  "(string \<Rightarrow> 'w remote) option \<Rightarrow> string \<Rightarrow> 'w \<Rightarrow> json \<times> 'w" where
  "optional_call method patient_id w =
     (case method of
        None \<Rightarrow> (JList [], w)
      | Some call \<Rightarrow>
          (case call patient_id w of
             (Inr v, w1) \<Rightarrow> (v, w1)
           | (Inl e, w1) \<Rightarrow> (JList [], w1)))"

text \<open>
  \<open>EHRIntegrationService.get_patient_context\<close>. The \<open>except Exception\<close> around the
  body logs and raises again, so every failure of the body is a failure of the call.
\<close>

definition get_patient_context ::
  "'w clock \<Rightarrow> 'w connectors \<Rightarrow> string \<Rightarrow> string \<Rightarrow> 'w \<Rightarrow> (exn + json) \<times> 'w" where
  "get_patient_context utcnow cs ehr patient_id w =
     (case get_connector cs ehr of
        Inl e \<Rightarrow> (Inl e, w)
      | Inr connector \<Rightarrow>
          (case get_patient connector patient_id w of
             (Inl e, w1) \<Rightarrow> (Inl e, w1)
           | (Inr patient, w1) \<Rightarrow>
               (case get_medications connector patient_id w1 of
                  (Inl e, w2) \<Rightarrow> (Inl e, w2)
                | (Inr medications, w2) \<Rightarrow>
                    (let (allergies, w3) = optional_call (get_allergies connector) patient_id w2;
                         (conditions, w4) = optional_call (get_conditions connector) patient_id w3
                     in case bind (extract_patient_summary patient) (\<lambda>p.
                             bind (extract_summaries medication_summary medications) (\<lambda>ms.
                             bind (extract_summaries allergy_summary allergies) (\<lambda>as.
                             bind (extract_summaries condition_summary conditions) (\<lambda>cds.
                               Inr (p, ms, as, cds))))) of
                          Inl e \<Rightarrow> (Inl e, w4)
                        | Inr (p, ms, as, cds) \<Rightarrow>
                            (let (t, w5) = utcnow w4
                             in (Inr (JDict [(''patient'', p),
                                             (''current_medications'', ms),
                                             (''allergies'', as),
                                             (''conditions'', cds),
                                             (''retrieved_at'', JStr (isoformat t)),
                                             (''source_ehr'', JStr ehr)]), w5))))))"

section \<open>The sync scheduler\<close>

record job =
  job_id :: string
  prescription_id :: string
  ehr_system :: string
  prescription_data :: json
  retry_count :: int
  attempts :: int
  status :: string
  created_at :: datetime
  last_attempt_at :: "datetime option"
  result :: json

text \<open>
  \<open>schedule_sync\<close>: two clock reads (the job id, then \<open>created_at\<close>); the new job is
  appended to \<open>sync_jobs\<close>. Returns the job id and the new list.
\<close>

definition schedule_sync ::
  "'w clock \<Rightarrow> job list \<Rightarrow> string \<Rightarrow> string \<Rightarrow> json \<Rightarrow> int \<Rightarrow> 'w \<Rightarrow>
   (string \<times> job list) \<times> 'w" where
  "schedule_sync utcnow sync_jobs pid ehr pdata retries w =
     (let (t1, w1) = utcnow w;
          jid = ''sync-'' @ pid @ ''-'' @ strftime_YmdHMS t1;
          (t2, w2) = utcnow w1;
          j = \<lparr>job_id = jid, prescription_id = pid, ehr_system = ehr,
               prescription_data = pdata, retry_count = retries, attempts = 0,
               status = ''pending'', created_at = t2, last_attempt_at = None,
               result = JNull\<rparr>
      in ((jid, sync_jobs @ [j]), w2))"

record results =
  processed :: nat
  succeeded :: nat
  failed :: nat
  retrying :: nat

text \<open>
  One iteration of the loop of \<open>process_sync_jobs\<close>, for the job object at hand. The
  sync result's \<open>success\<close> entry decides; a \<open>False\<close> is re-raised as an exception
  carrying the result's \<open>error\<close> text and handled like any other failure.
\<close>

definition attempt_sync ::
  "'w clock \<Rightarrow> 'w connectors \<Rightarrow> job \<Rightarrow> 'w \<Rightarrow> (exn + json) \<times> 'w" where
  "attempt_sync utcnow cs j w =
     (let (r, w1) = sync_prescription utcnow cs (ehr_system j) (prescription_data j) w
      in (bind r (\<lambda>res. bind (subscript res ''success'') (\<lambda>s.
            if truthy s then Inr res
            else bind (get_default res ''error'' (JStr ''Unknown error'')) (\<lambda>m.
                   Inl (Raised ''Exception'' (str_of m))))), w1))"

definition process_job ::
  "'w clock \<Rightarrow> 'w connectors \<Rightarrow> job \<Rightarrow> results \<Rightarrow> 'w \<Rightarrow> (job \<times> results) \<times> 'w" where
  "process_job utcnow cs j0 res w =
     (let (t, w1) = utcnow w;
          j = j0\<lparr>attempts := attempts j0 + 1, last_attempt_at := Some t\<rparr>;
          (r, w2) = attempt_sync utcnow cs j w1;
          (j', res') =
            (case r of
               Inr sr \<Rightarrow>
                 (j\<lparr>status := ''completed'', result := sr\<rparr>,
                  res\<lparr>succeeded := succeeded res + 1\<rparr>)
             | Inl e \<Rightarrow>
                 if attempts j < retry_count j
                 then (j\<lparr>status := ''pending''\<rparr>, res\<lparr>retrying := retrying res + 1\<rparr>)
                 else (j\<lparr>status := ''failed'', result := JDict [(''error'', JStr (exn_str e))]\<rparr>,
                       res\<lparr>failed := failed res + 1\<rparr>))
      in ((j', res'\<lparr>processed := processed res' + 1\<rparr>), w2))"

text \<open>
  The loop runs over \<open>pending_jobs\<close>, the job objects that were pending when the
  call began. A job object is identified by its position in \<open>sync_jobs\<close>, and the
  loop updates the object in place.
\<close>

fun process_loop ::
  "'w clock \<Rightarrow> 'w connectors \<Rightarrow> nat list \<Rightarrow> job list \<Rightarrow> results \<Rightarrow> 'w \<Rightarrow>
   (job list \<times> results) \<times> 'w" where
  "process_loop utcnow cs [] jobs res w = ((jobs, res), w)"
| "process_loop utcnow cs (i # is) jobs res w =
     (let ((j', res'), w') = process_job utcnow cs (jobs ! i) res w
      in process_loop utcnow cs is (jobs[i := j']) res' w')"

definition pending_jobs :: "job list \<Rightarrow> nat list" where
  "pending_jobs jobs = filter (\<lambda>i. status (jobs ! i) = ''pending'') [0..<length jobs]"

definition process_sync_jobs ::
  "'w clock \<Rightarrow> 'w connectors \<Rightarrow> job list \<Rightarrow> 'w \<Rightarrow> (job list \<times> results) \<times> 'w" where
  "process_sync_jobs utcnow cs sync_jobs w =
     process_loop utcnow cs (pending_jobs sync_jobs) sync_jobs
       \<lparr>processed = 0, succeeded = 0, failed = 0, retrying = 0\<rparr> w"

text \<open>\<open>get_job_status\<close>: the first job with the id, if any.\<close>

definition get_job_status :: "job list \<Rightarrow> string \<Rightarrow> json option" where
  "get_job_status sync_jobs jid =
     (case find (\<lambda>j. job_id j = jid) sync_jobs of
        None \<Rightarrow> None
      | Some j \<Rightarrow>
          Some (JDict [(''job_id'', JStr (job_id j)),
                       (''status'', JStr (status j)),
                       (''attempts'', JInt (attempts j)),
                       (''created_at'', JStr (isoformat (created_at j))),
                       (''last_attempt_at'',
                          (case last_attempt_at j of None \<Rightarrow> JNull | Some t \<Rightarrow> JStr (isoformat t))),
                       (''result'', result j)]))"


section \<open>The inbound HL7 message queue\<close>

text \<open>
  An entry of \<open>HL7MessageQueue.queue\<close>: the dictionary \<open>enqueue\<close> builds, with the
  key \<open>dequeued_at\<close> that \<open>dequeue\<close> adds. The keys \<open>message\<close> and \<open>status\<close> are
  the fields \<open>hl7_message\<close> and \<open>entry_status\<close>.
\<close>

record queue_entry =
  queue_id :: string
  hl7_message :: string
  priority :: int
  queued_at :: datetime
  entry_status :: string
  dequeued_at :: "datetime option"

text \<open>
  \<open>xs.sort(key=f, reverse=True)\<close>. Python's sort is stable, and with
  \<open>reverse=True\<close> it reverses the list, sorts it stably in ascending order of the
  key and reverses the result, so that entries with equal keys keep their order.
  \<open>sort_key\<close> is the stable ascending sort.
\<close>

definition sort_reverse :: "('a \<Rightarrow> int) \<Rightarrow> 'a list \<Rightarrow> 'a list" where
  "sort_reverse f xs = rev (sort_key f (rev xs))"

text \<open>The queue object: \<open>queue\<close> and \<open>processed\<close> (here \<open>processed_entries\<close>).\<close>

record hl7_queue =
  queue :: "queue_entry list"
  processed_entries :: "queue_entry list"

definition init_queue :: hl7_queue where
  "init_queue = \<lparr>queue = [], processed_entries = []\<rparr>"

definition enqueue ::
  "'w clock \<Rightarrow> hl7_queue \<Rightarrow> string \<Rightarrow> int \<Rightarrow> 'w \<Rightarrow> (string \<times> hl7_queue) \<times> 'w" where
  "enqueue utcnow q msg prio w =
     (let (t1, w1) = utcnow w;
          qid = ''Q-'' @ strftime_YmdHMSf t1;
          (t2, w2) = utcnow w1;
          entry = \<lparr>queue_id = qid, hl7_message = msg, priority = prio, queued_at = t2,
                   entry_status = ''pending'', dequeued_at = None\<rparr>
      in ((qid, q\<lparr>queue := sort_reverse priority (queue q @ [entry])\<rparr>), w2))"

text \<open>\<open>dequeue\<close>: \<open>None\<close> on an empty queue, else \<open>queue.pop(0)\<close>, marked as processing.\<close>

definition dequeue ::
  "'w clock \<Rightarrow> hl7_queue \<Rightarrow> 'w \<Rightarrow> (queue_entry option \<times> hl7_queue) \<times> 'w" where
  "dequeue utcnow q w =
     (case queue q of
        [] \<Rightarrow> ((None, q), w)
      | m # rest \<Rightarrow>
          (let (t, w1) = utcnow w
           in ((Some (m\<lparr>entry_status := ''processing'', dequeued_at := Some t\<rparr>),
                q\<lparr>queue := rest\<rparr>), w1)))"

text \<open>A sequence of calls on one queue object, and what the \<open>dequeue\<close> calls returned.\<close>

datatype queue_call = Enqueue string int | Dequeue

fun run_queue ::
  "'w clock \<Rightarrow> queue_call list \<Rightarrow> hl7_queue \<Rightarrow> 'w \<Rightarrow> (queue_entry option list \<times> hl7_queue) \<times> 'w" where
  "run_queue utcnow [] q w = (([], q), w)"
| "run_queue utcnow (Enqueue msg prio # cs) q w =
     (let ((qid, q1), w1) = enqueue utcnow q msg prio w
      in run_queue utcnow cs q1 w1)"
| "run_queue utcnow (Dequeue # cs) q w =
     (let ((m, q1), w1) = dequeue utcnow q w;
          ((ms, q2), w2) = run_queue utcnow cs q1 w1
      in ((m # ms, q2), w2))"

subsection \<open>The queue the specification describes\<close>

text \<open>
  The specification's priority queue, written from its words: the waiting entries
  are kept in arrival order; a dequeue takes the earliest-arrived entry of the highest
  priority present. It reads the clock as the implementation does, so that both build
  the same entries.
\<close>

definition spec_enqueue ::
  "'w clock \<Rightarrow> queue_entry list \<Rightarrow> string \<Rightarrow> int \<Rightarrow> 'w \<Rightarrow> queue_entry list \<times> 'w" where
  "spec_enqueue utcnow waiting msg prio w =
     (let (t1, w1) = utcnow w;
          (t2, w2) = utcnow w1
      in (waiting @ [\<lparr>queue_id = ''Q-'' @ strftime_YmdHMSf t1, hl7_message = msg,
                       priority = prio, queued_at = t2, entry_status = ''pending'',
                       dequeued_at = None\<rparr>], w2))"

definition highest_priority :: "queue_entry list \<Rightarrow> int" where
  "highest_priority waiting = Max (set (map priority waiting))"

definition spec_next :: "queue_entry list \<Rightarrow> queue_entry option" where
  "spec_next waiting =
     (if waiting = [] then None
      else find (\<lambda>m. priority m = highest_priority waiting) waiting)"

definition spec_dequeue ::
  "'w clock \<Rightarrow> queue_entry list \<Rightarrow> 'w \<Rightarrow> (queue_entry option \<times> queue_entry list) \<times> 'w" where
  "spec_dequeue utcnow waiting w =
     (case spec_next waiting of
        None \<Rightarrow> ((None, waiting), w)
      | Some m \<Rightarrow>
          (let (t, w1) = utcnow w
           in ((Some (m\<lparr>entry_status := ''processing'', dequeued_at := Some t\<rparr>),
                remove1 m waiting), w1)))"

fun spec_run ::
  "'w clock \<Rightarrow> queue_call list \<Rightarrow> queue_entry list \<Rightarrow> 'w \<Rightarrow>
   (queue_entry option list \<times> queue_entry list) \<times> 'w" where
  "spec_run utcnow [] waiting w = (([], waiting), w)"
| "spec_run utcnow (Enqueue msg prio # cs) waiting w =
     (let (waiting1, w1) = spec_enqueue utcnow waiting msg prio w
      in spec_run utcnow cs waiting1 w1)"
| "spec_run utcnow (Dequeue # cs) waiting w =
     (let ((m, waiting1), w1) = spec_dequeue utcnow waiting w;
          ((ms, waiting2), w2) = spec_run utcnow cs waiting1 w1
      in ((m # ms, waiting2), w2))"

text \<open>
  A list is in queue order when the priorities descend and entries of equal priority
  stand in the order given by \<open>waiting\<close>, the arrival order.
\<close>

definition queue_order :: "queue_entry list \<Rightarrow> queue_entry list \<Rightarrow> bool" where
  "queue_order waiting xs =
     (sorted (rev (map priority xs)) \<and> mset xs = mset waiting \<and>
      list_all (\<lambda>m. filter (\<lambda>x. priority x = priority m) xs =
                     filter (\<lambda>x. priority x = priority m) waiting) waiting)"

subsection \<open>A concrete world for the examples\<close>

text \<open>
  The world is a counter of the effects so far; the clock reads a time out of it. The
  connector \<open>down_connector\<close> is an EHR endpoint that times out on every call and has
  neither optional method.
\<close>

definition tick_clock :: "nat clock" where
  "tick_clock w =
     (\<lparr>year = 2025, month = 1, day = 30, hour = 12, minute = 0, second = w mod 60,
       microsecond = 0\<rparr>, Suc w)"

definition timeout :: "nat remote" where
  "timeout w = (Inl (Raised ''ConnectTimeout'' ''connection timed out''), Suc w)"

definition down_connector :: "nat connector" where
  "down_connector =
     \<lparr>get_patient = (\<lambda>_. timeout), get_medications = (\<lambda>_. timeout),
      create_prescription = (\<lambda>_. timeout), get_prescription_status = (\<lambda>_. timeout),
      get_allergies = None, get_conditions = None\<rparr>"

definition down_service :: "nat connectors" where
  "down_service = register_connector Map.empty ''Epic'' down_connector"

text \<open>
  One job scheduled for \<open>epic\<close> with three attempts, then \<open>n\<close> passes of
  \<open>process_sync_jobs\<close>: the job list and the world after them.
\<close>

fun passes :: "nat \<Rightarrow> job list \<times> nat" where
  "passes 0 =
     (snd (fst (schedule_sync tick_clock [] ''RX-1'' ''epic'' JNull 3 0)),
      snd (schedule_sync tick_clock [] ''RX-1'' ''epic'' JNull 3 0))"
| "passes (Suc n) =
     (fst (fst (process_sync_jobs tick_clock down_service (fst (passes n)) (snd (passes n)))),
      snd (process_sync_jobs tick_clock down_service (fst (passes n)) (snd (passes n))))"

text \<open>A source of UUIDs for the examples, and the payloads of the gateway examples.\<close>

definition tick_uuid :: "nat uuid_source" where
  "tick_uuid w = ((3735928559 + w) * 2 ^ 96 + 1311768467463790320, Suc w)"

definition example_medications :: json where
  "example_medications =
     JList [JDict [(''medicine_code'', JStr ''314076''),
                   (''medicine_name'', JStr ''Lisinopril 10mg''),
                   (''quantity'', JInt 30)]]"

definition spec_example_payload :: dict where
  "spec_example_payload =
     [(''doctor_id'', JStr ''28501011234567''),
      (''patient_id'', JStr ''29012011234567''),
      (''diagnosis'', JStr ''Hypertension''),
      (''medications'', example_medications)]"

definition named_example_payload :: dict where
  "named_example_payload =
     [(''doctor_id'', JStr ''28501011234567''),
      (''doctor_name'', JStr ''Dr. Ahmed Hassan''),
      (''patient_id'', JStr ''29012011234567''),
      (''patient_name'', JStr ''Mona Ali''),
      (''diagnosis'', JStr ''Hypertension''),
      (''medications'', example_medications)]"






text \<open>
  A connector in the manner of the Cerner one: the four mandatory methods answer, and
  there is neither \<open>get_allergies\<close> nor \<open>get_conditions\<close>.
\<close>

definition example_patient :: json where
  "example_patient =
     JDict [(''resourceType'', JStr ''Patient''), (''id'', JStr ''12724066''),
            (''name'', JList [JDict [(''family'', JStr ''Smart''),
                                     (''given'', JList [JStr ''Nancy''])]]),
            (''birthDate'', JStr ''1980-08-11''), (''gender'', JStr ''female'')]"

definition plain_connector :: "nat connector" where
  "plain_connector =
     \<lparr>get_patient = (\<lambda>p w. (Inr example_patient, Suc w)),
      get_medications = (\<lambda>p w. (Inr (JList []), Suc w)),
      create_prescription = (\<lambda>d w. (Inr (JDict [(''id'', JStr ''1''), (''status'', JStr ''active'')]), Suc w)),
      get_prescription_status = (\<lambda>p w. (Inr (JDict [(''prescription_id'', JStr p)]), Suc w)),
      get_allergies = None, get_conditions = None\<rparr>"

definition plain_service :: "nat connectors" where
  "plain_service = register_connector Map.empty ''Cerner'' plain_connector"

section \<open>Properties of the sync scheduler\<close>

lemma process_job_counts:
  "process_job utcnow cs j res w = ((j', res'), w') \<Longrightarrow>
   processed res' = processed res + 1 \<and>
   succeeded res' + failed res' + retrying res' = succeeded res + failed res + retrying res + 1"
  by (auto simp: process_job_def Let_def split: prod.splits sum.splits if_splits)

lemma process_loop_counts:
  "process_loop utcnow cs is jobs res w = ((jobs', res'), w') \<Longrightarrow>
   processed res' = processed res + length is \<and>
   succeeded res' + failed res' + retrying res' =
     succeeded res + failed res + retrying res + length is"
proof (induction "is" arbitrary: jobs res w)
  case Nil
  then show ?case by simp
next
  case (Cons i "is")
  obtain j1 res1 w1 where pj: "process_job utcnow cs (jobs ! i) res w = ((j1, res1), w1)"
    by (metis surj_pair)
  with Cons.prems have "process_loop utcnow cs is (jobs[i := j1]) res1 w1 = ((jobs', res'), w')"
    by simp
  from Cons.IH[OF this] process_job_counts[OF pj] show ?case by simp
qed

lemma length_pending_jobs:
  "length (pending_jobs jobs) = length (filter (\<lambda>j. status j = ''pending'') jobs)"
proof -
  have "filter (\<lambda>j. status j = ''pending'') (map ((!) jobs) [0..<length jobs]) =
        map ((!) jobs) (pending_jobs jobs)"
    by (simp add: filter_map pending_jobs_def comp_def)
  then show ?thesis by (metis length_map map_nth)
qed

text \<open>
  C10. The summary a call of \<open>process_sync_jobs\<close> returns counts every job that was
  pending when the call began exactly once: \<open>processed\<close> is the number of those jobs,
  and it is the sum of \<open>succeeded\<close>, \<open>failed\<close> and \<open>retrying\<close>.
\<close>

theorem process_sync_jobs_summary:
  "processed (snd (fst (process_sync_jobs utcnow cs sync_jobs w))) =
     succeeded (snd (fst (process_sync_jobs utcnow cs sync_jobs w))) +
     failed (snd (fst (process_sync_jobs utcnow cs sync_jobs w))) +
     retrying (snd (fst (process_sync_jobs utcnow cs sync_jobs w))) \<and>
   processed (snd (fst (process_sync_jobs utcnow cs sync_jobs w))) =
     length (filter (\<lambda>j. status j = ''pending'') sync_jobs)"
proof -
  obtain jobs' res' w' where p: "process_sync_jobs utcnow cs sync_jobs w = ((jobs', res'), w')"
    by (metis surj_pair)
  from process_loop_counts[OF p[unfolded process_sync_jobs_def]] length_pending_jobs[of sync_jobs]
  show ?thesis by (simp add: p)
qed












text \<open>
  C6 (as the code has it). \<open>schedule_sync\<close> never looks at the jobs already in the
  list: it appends one new pending job with no attempts and leaves every other job as
  it was, so the number of jobs for a pair (prescription, EHR system) grows by one with
  every request for that pair.
\<close>

theorem schedule_sync_appends:
  "\<exists>j. snd (fst (schedule_sync utcnow sync_jobs pid ehr pdata n w)) = sync_jobs @ [j] \<and>
       job_id j = fst (fst (schedule_sync utcnow sync_jobs pid ehr pdata n w)) \<and>
       prescription_id j = pid \<and> ehr_system j = ehr \<and> prescription_data j = pdata \<and>
       retry_count j = n \<and> attempts j = 0 \<and> status j = ''pending'' \<and> result j = JNull \<and>
       length (filter (\<lambda>j. prescription_id j = pid \<and> ehr_system j = ehr)
                 (snd (fst (schedule_sync utcnow sync_jobs pid ehr pdata n w)))) =
         Suc (length (filter (\<lambda>j. prescription_id j = pid \<and> ehr_system j = ehr) sync_jobs))"
  by (simp add: schedule_sync_def Let_def split: prod.splits)

text \<open>
  The claim C6 itself fails: two requests for the same pair, the second while the
  first job is still pending, leave two pending jobs for the pair.
\<close>

theorem schedule_sync_duplicates_counterexample:
  "map (\<lambda>j. (prescription_id j, ehr_system j, status j))
     (snd (fst (schedule_sync tick_clock (fst (passes 0)) ''RX-1'' ''epic'' JNull 3 (snd (passes 0))))) =
   [(''RX-1'', ''epic'', ''pending''), (''RX-1'', ''epic'', ''pending'')]"
  by (simp add: schedule_sync_def tick_clock_def Let_def split: prod.splits)

section \<open>Properties of the submission gateway\<close>


lemma validate_prescription_errors:
  assumes "format_errors pdata fmt \<noteq> []"
  shows "validate_prescription vs pdata fmt w = (Inr (False, format_errors pdata fmt), w)"
  using assms by (simp add: validate_prescription_def Let_def split: option.splits)

lemma submit_prescription_invalid:
  assumes v: "validate_prescription vs pdata fmt w2 = (Inr (False, es), w3)"
    and u: "ids w = (u, w1)" and ts: "clk w1 = (ts, w2)"
  shows "submit_prescription clk ids vs pdata fmt submitter stype w =
         (Inr \<lparr>submission_id = str_uuid u, prescription_tx_id = [],
              response_status = REJECTED, message = ''Validation failed'',
              timestamp = ts, response_errors = Some es\<rparr>, w3)"
  by (simp add: submit_prescription_def submit_try_def u ts v)


lemma submit_prescription_valid:
  assumes v: "validate_prescription vs pdata fmt w2 = (Inr (True, es), w3)"
    and u: "ids w = (u, w1)" and ts: "clk w1 = (ts, w2)"
    and tx: "generate_tx_id clk ids w3 = (tx, w4)"
  shows "fst (submit_prescription clk ids vs pdata fmt submitter stype w) =
         Inr \<lparr>submission_id = str_uuid u, prescription_tx_id = tx,
              response_status = TRANSMITTED,
              message = ''Prescription submitted and transmitted successfully'',
              timestamp = ts, response_errors = None\<rparr>"
  by (simp add: submit_prescription_def submit_try_def u ts tx v Let_def split: prod.splits)

lemma tick_uuid_0: "tick_uuid 0 = (fst (tick_uuid 0), 1)"
  by (simp add: tick_uuid_def)

lemma tick_clock_1: "tick_clock 1 = (fst (tick_clock 1), 2)"
  by (simp add: tick_clock_def)




text \<open>
  The claim C4 as stated fails: the payload of the example has neither \<open>doctor_name\<close>
  nor \<open>patient_name\<close>, which the JSON validation requires, so the gateway rejects it
  and assigns no transaction id.
\<close>

theorem spec_example_rejected_counterexample:
  "map_sum id (\<lambda>r. (response_status r, prescription_tx_id r, response_errors r))
     (fst (submit_prescription tick_clock tick_uuid None spec_example_payload JSON
            ''28501011234567'' ''doctor'' 0)) =
   Inr (REJECTED, [],
        Some [field_error ''doctor_name'' ''Required field missing'',
              field_error ''patient_name'' ''Required field missing''])"
proof -
  have f: "format_errors spec_example_payload JSON =
           [field_error ''doctor_name'' ''Required field missing'',
            field_error ''patient_name'' ''Required field missing'']"
    by (simp add: spec_example_payload_def example_medications_def format_errors_def
        required_fields_def has_key_def dget_def)
  have v: "validate_prescription None spec_example_payload JSON (2::nat) =
           (Inr (False, [field_error ''doctor_name'' ''Required field missing'',
                         field_error ''patient_name'' ''Required field missing'']), 2)"
    using validate_prescription_errors[of spec_example_payload JSON None "2::nat"] f by simp
  show ?thesis
    by (simp add: submit_prescription_invalid[where clk=tick_clock and ids=tick_uuid, OF v tick_uuid_0 tick_clock_1])
qed

lemma length_pad: "length (pad k n) = k"
  by (induction k arbitrary: n) auto

lemma digit_in: "digit n \<in> set ''0123456789''"
  unfolding digit_def by (rule nth_mem) simp

lemma pad_digits: "list_all (\<lambda>c. c \<in> set ''0123456789'') (pad k n)"
  by (induction k arbitrary: n) (auto simp: digit_in simp del: set_simps)

lemma length_hex_pad: "length (hex_pad k n) = k"
  by (induction k arbitrary: n) auto

lemma hex_digit_upper: "upper_char (hex_digit n) \<in> set ''ABCDEF0123456789''"
proof -
  have "hex_digit n \<in> set ''0123456789abcdef''"
    unfolding hex_digit_def by (rule nth_mem) simp
  moreover have "\<forall>c \<in> set ''0123456789abcdef''. upper_char c \<in> set ''ABCDEF0123456789''"
    by (simp add: upper_char_def ascii_uppercase_def ascii_lowercase_def)
  ultimately show ?thesis by blast
qed

lemma hex_pad_upper: "list_all (\<lambda>c. c \<in> set ''ABCDEF0123456789'') (upper (hex_pad k n))"
  by (induction k arbitrary: n) (auto simp: upper_def hex_digit_upper simp del: set_simps)

lemma list_all_take: "list_all P xs \<Longrightarrow> list_all P (take k xs)"
  by (auto simp: list_all_iff dest: in_set_takeD)

lemma upper_take: "upper (take k xs) = take k (upper xs)"
  by (simp add: upper_def take_map)

lemma unique_id_ok:
  "length (upper (take 8 (str_uuid u))) = 8 \<and>
   list_all (\<lambda>c. c \<in> set ''ABCDEF0123456789'') (upper (take 8 (str_uuid u)))"
proof -
  have "take 8 (str_uuid u) = take 8 (hex_pad 32 u)"
    by (simp add: str_uuid_def Let_def length_hex_pad)
  then show ?thesis
    using list_all_take[OF hex_pad_upper, of 8 32 u]
    by (simp add: upper_take length_hex_pad) (simp add: upper_def length_hex_pad)
qed

lemma generate_tx_id_pattern: "matches_tx_pattern (fst (generate_tx_id utcnow uuid4 w))"
proof -
  obtain t w1 where t: "utcnow w = (t, w1)" by (metis surj_pair)
  obtain u w2 where u: "uuid4 w1 = (u, w2)" by (metis surj_pair)
  define d where "d = strftime_Ymd t"
  define x where "x = upper (take 8 (str_uuid u))"
  have d: "length d = 8" "list_all (\<lambda>c. c \<in> set ''0123456789'') d"
    using pad_digits by (simp_all add: d_def strftime_Ymd_def length_pad)
  have x: "length x = 8" "list_all (\<lambda>c. c \<in> set ''ABCDEF0123456789'') x"
    using unique_id_ok[of u] by (simp_all add: x_def)
  have g: "fst (generate_tx_id utcnow uuid4 w) = ''RX-'' @ d @ ''-'' @ x"
    by (simp add: generate_tx_id_def t u d_def x_def)
  show ?thesis
    unfolding g matches_tx_pattern_def using d x
    by (simp add: nth_append)
qed

lemma pad_2: "pad 2 n = [digit (n div 10), digit n]"
proof -
  have "pad (Suc (Suc 0)) n = [digit (n div 10), digit n]" by simp
  then show ?thesis by (simp only: numeral_2_eq_2)
qed

lemma pad_4: "pad 4 n = [digit (n div 10 div 10 div 10), digit (n div 10 div 10), digit (n div 10), digit n]"
proof -
  have e: "(4::nat) = Suc (Suc (Suc (Suc 0)))" by simp
  have "pad (Suc (Suc (Suc (Suc 0)))) n =
        [digit (n div 10 div 10 div 10), digit (n div 10 div 10), digit (n div 10), digit n]"
    by simp
  then show ?thesis by (simp only: e)
qed

lemma take_hex_pad: "take k (hex_pad (k + m) u) = hex_pad k (u div 16 ^ m)"
proof (induction m arbitrary: u)
  case 0
  then show ?case by (simp add: length_hex_pad)
next
  case (Suc m)
  have "take k (hex_pad (k + Suc m) u) = take k (hex_pad (k + m) (u div 16))"
    by (simp add: length_hex_pad)
  also have "\<dots> = hex_pad k (u div 16 div 16 ^ m)" by (rule Suc.IH)
  finally show ?case by (simp add: div_mult2_eq)
qed

lemma hex_pad_8:
  "hex_pad 8 n =
     [hex_digit (n div 16 div 16 div 16 div 16 div 16 div 16 div 16),
      hex_digit (n div 16 div 16 div 16 div 16 div 16 div 16),
      hex_digit (n div 16 div 16 div 16 div 16 div 16),
      hex_digit (n div 16 div 16 div 16 div 16),
      hex_digit (n div 16 div 16 div 16),
      hex_digit (n div 16 div 16),
      hex_digit (n div 16),
      hex_digit n]"
proof -
  have e: "(8::nat) = Suc (Suc (Suc (Suc (Suc (Suc (Suc (Suc 0)))))))" by simp
  have "hex_pad (Suc (Suc (Suc (Suc (Suc (Suc (Suc (Suc 0)))))))) n =
     [hex_digit (n div 16 div 16 div 16 div 16 div 16 div 16 div 16),
      hex_digit (n div 16 div 16 div 16 div 16 div 16 div 16),
      hex_digit (n div 16 div 16 div 16 div 16 div 16),
      hex_digit (n div 16 div 16 div 16 div 16),
      hex_digit (n div 16 div 16 div 16),
      hex_digit (n div 16 div 16),
      hex_digit (n div 16),
      hex_digit n]"
    by simp
  then show ?thesis by (simp only: e)
qed

lemma take_8_str_uuid: "take 8 (str_uuid u) = hex_pad 8 (u div 16 ^ 24)"
proof -
  have "take 8 (str_uuid u) = take 8 (hex_pad 32 u)"
    by (simp add: str_uuid_def Let_def length_hex_pad)
  also have "\<dots> = take 8 (hex_pad (8 + 24) u)" by simp
  also have "\<dots> = hex_pad 8 (u div 16 ^ 24)" by (rule take_hex_pad)
  finally show ?thesis .
qed

lemma tx_eval: "generate_tx_id tick_clock tick_uuid 2 = (''RX-20250130-DEADBEF2'', 4)"
proof -
  have d: "strftime_Ymd (fst (tick_clock 2)) = ''20250130''"
    by (simp add: tick_clock_def strftime_Ymd_def pad_2 pad_4 digit_def)
  have u: "fst (tick_uuid 3) div 16 ^ 24 = 3735928562"
    by (simp add: tick_uuid_def)
  have h: "hex_pad 8 3735928562 = ''deadbef2''"
    by (simp add: hex_pad_8 hex_digit_def)
  have x: "upper ''deadbef2'' = ''DEADBEF2''"
    by (simp add: upper_def upper_char_def ascii_uppercase_def ascii_lowercase_def)
  have "upper (take 8 (str_uuid (fst (tick_uuid 3)))) = ''DEADBEF2''"
    by (simp only: take_8_str_uuid u h x)
  with d show ?thesis
    by (simp add: generate_tx_id_def tick_clock_def tick_uuid_def)
qed

lemma validate_prescription_complete:
  assumes "list_all (has_key pdata) required_fields"
    and "dget pdata ''medications'' = JList ms" and "ms \<noteq> []"
  shows "validate_prescription None pdata JSON w = (Inr (True, []), w)"
proof -
  have "filter (\<lambda>f. \<not> has_key pdata f) required_fields = []"
    using assms(1) by (simp add: list_all_iff filter_empty_conv)
  moreover have "has_key pdata ''medications''"
    using assms(1) by (simp add: required_fields_def)
  ultimately have "format_errors pdata JSON = []"
    using assms(2,3) by (simp add: format_errors_def)
  then show ?thesis by (simp add: validate_prescription_def)
qed

text \<open>
  C4 (as the code has it). A JSON payload that carries every required field
  (\<open>doctor_id\<close>, \<open>doctor_name\<close>, \<open>patient_id\<close>, \<open>patient_name\<close>, \<open>medications\<close>,
  \<open>diagnosis\<close>) with a non-empty medication list, submitted through a gateway without
  a validation service, is transmitted, and its transaction id matches
  \<open>RX-\d{8}-[A-F0-9]{8}\<close>. The witness is the payload of the example with the two
  names added.
\<close>

theorem complete_json_payload_transmitted:
  assumes "list_all (has_key pdata) required_fields"
    and "dget pdata ''medications'' = JList ms" and "ms \<noteq> []"
  shows "\<exists>r. fst (submit_prescription utcnow uuid4 None pdata JSON submitter stype w) = Inr r \<and>
           response_status r = TRANSMITTED \<and> matches_tx_pattern (prescription_tx_id r) \<and>
           response_errors r = None"
proof -
  obtain u w1 where u: "uuid4 w = (u, w1)" by (metis surj_pair)
  obtain ts w2 where ts: "utcnow w1 = (ts, w2)" by (metis surj_pair)
  obtain tx w3 where tx: "generate_tx_id utcnow uuid4 w2 = (tx, w3)" by (metis surj_pair)
  from generate_tx_id_pattern[of utcnow uuid4 w2] tx have "matches_tx_pattern tx" by simp
  then show ?thesis
    by (simp add: submit_prescription_valid[where clk=utcnow and ids=uuid4,
          OF validate_prescription_complete[OF assms] u ts tx])
qed

theorem complete_json_payload_transmitted_witness:
  "map_sum id (\<lambda>r. (response_status r, prescription_tx_id r, response_errors r))
     (fst (submit_prescription tick_clock tick_uuid None named_example_payload JSON
            ''28501011234567'' ''doctor'' 0)) =
   Inr (TRANSMITTED, ''RX-20250130-DEADBEF2'', None)"
proof -
  have a: "list_all (has_key named_example_payload) required_fields"
    by (simp add: named_example_payload_def required_fields_def has_key_def)
  have b: "dget named_example_payload ''medications'' =
             JList [JDict [(''medicine_code'', JStr ''314076''),
                   (''medicine_name'', JStr ''Lisinopril 10mg''),
                   (''quantity'', JInt 30)]]"
    by (simp add: named_example_payload_def example_medications_def dget_def)
  have c: "[JDict [(''medicine_code'', JStr ''314076''),
                   (''medicine_name'', JStr ''Lisinopril 10mg''),
                   (''quantity'', JInt 30)]] \<noteq> []" by simp
  have e: "prescription_tx_id r = ''RX-20250130-DEADBEF2''"
    if "fst (submit_prescription tick_clock tick_uuid None named_example_payload JSON
            ''28501011234567'' ''doctor'' 0) = Inr r" for r
    using that
      submit_prescription_valid[where clk=tick_clock and ids=tick_uuid and
        submitter="''28501011234567''" and stype="''doctor''",
        OF validate_prescription_complete[OF a b c] tick_uuid_0 tick_clock_1 tx_eval]
    by auto
  from complete_json_payload_transmitted[OF a b c, of tick_clock tick_uuid
      "''28501011234567''" "''doctor''" 0] e
  show ?thesis by auto
qed


section \<open>Properties of the message queue\<close>

lemma sort_reverse_snoc:
  "sort_reverse f (sort_reverse f ws @ [e]) = sort_reverse f (ws @ [e])"
proof -
  have "sort_key f (sort_key f (rev ws)) = sort_key f (rev ws)"
    by (rule sort_key_id_if_sorted) (rule sorted_sort_key)
  then show ?thesis by (simp add: sort_reverse_def)
qed

lemma sort_key_stable': "filter (\<lambda>x. k = f x) (sort_key f xs) = filter (\<lambda>x. k = f x) xs"
  using sort_key_stable[of f k xs] by (simp add: eq_commute)

lemma filter_eq_Cons_find: "filter P xs = y # ys \<Longrightarrow> find P xs = Some y"
  by (induction xs) (auto split: if_splits)

lemma filter_remove1_not: "\<not> P m \<Longrightarrow> filter P (remove1 m xs) = filter P xs"
  by (induction xs) auto

lemma filter_remove1_first:
  assumes "filter P xs = m # ys"
  shows "filter P (remove1 m xs) = ys"
proof -
  have "m \<in> set (filter P xs)" by (simp add: assms)
  then have "P m" by simp
  with assms show ?thesis
    by (induction xs) (auto split: if_splits)
qed

lemma filter_rev_cong: "filter P xs = filter P ys \<Longrightarrow> filter P (rev xs) = filter P (rev ys)"
  by (metis rev_filter)

lemma filter_rev_eq: "filter P (rev xs) = ys \<Longrightarrow> filter P xs = rev ys"
  by (metis rev_filter rev_rev_ident)

text \<open>The head of the sorted queue and what is left behind it.\<close>

lemma sort_reverse_Cons:
  assumes q: "sort_reverse f ws = m # rest"
  shows "find (\<lambda>x. f x = Max (set (map f ws))) ws = Some m \<and>
         rest = sort_reverse f (remove1 m ws) \<and> ws \<noteq> []"
proof -
  define T where "T = sort_key f (rev ws)"
  from q have T: "T = rev rest @ [m]"
    by (simp add: sort_reverse_def T_def rev_swap[symmetric] )
  have sT: "sorted (map f T)" by (simp add: T_def)
  have setT: "set T = set ws" by (simp add: T_def)
  have ne: "ws \<noteq> []" using setT T by auto
  have m_in: "m \<in> set ws" using setT T by auto
  have le: "f x \<le> f m" if "x \<in> set ws" for x
  proof -
    from that setT T have "x \<in> set (rev rest) \<or> x = m" by auto
    with sT T show ?thesis by (auto simp: sorted_append)
  qed
  have mx: "Max (f ` set ws) = f m"
    by (rule Max_eqI) (use le m_in in auto)
  have st: "filter (\<lambda>x. k = f x) T = filter (\<lambda>x. k = f x) (rev ws)" for k
    by (simp add: T_def sort_key_stable')
  have "filter (\<lambda>x. f m = f x) (rev ws) = filter (\<lambda>x. f m = f x) (rev rest) @ [m]"
    using st[of "f m"] by (simp add: T)
  from filter_rev_eq[OF this]
  have first: "filter (\<lambda>x. f m = f x) ws = m # filter (\<lambda>x. f m = f x) rest"
    by (simp add: rev_filter)
  have "find (\<lambda>x. f m = f x) ws = Some m"
    by (rule filter_eq_Cons_find) (rule first)
  then have fnd: "find (\<lambda>x. f x = Max (set (map f ws))) ws = Some m"
    by (simp add: mx eq_commute)
  have "sort_key f (rev (remove1 m ws)) = rev rest"
  proof (rule properties_for_sort_key)
    have "mset T = mset ws" by (simp add: T_def)
    then have "mset ws = add_mset m (mset rest)" by (simp add: T)
    then show "mset (rev rest) = mset (rev (remove1 m ws))"
      by simp
  next
    fix k assume "k \<in> set (rev rest)"
    show "filter (\<lambda>x. f k = f x) (rev rest) = filter (\<lambda>x. f k = f x) (rev (remove1 m ws))"
    proof (cases "f k = f m")
      case True
      from first have "filter (\<lambda>x. f m = f x) (remove1 m ws) = filter (\<lambda>x. f m = f x) rest"
        by (rule filter_remove1_first)
      from filter_rev_cong[OF this] show ?thesis by (simp add: True)
    next
      case False
      from st[of "f k"] False
      have "filter (\<lambda>x. f k = f x) (rev rest) = filter (\<lambda>x. f k = f x) (rev ws)"
        by (simp add: T)
      moreover have "filter (\<lambda>x. f k = f x) (remove1 m ws) = filter (\<lambda>x. f k = f x) ws"
        using False by (simp add: filter_remove1_not)
      from filter_rev_cong[OF this]
      have "filter (\<lambda>x. f k = f x) (rev (remove1 m ws)) = filter (\<lambda>x. f k = f x) (rev ws)" .
      ultimately show ?thesis by simp
    qed
  next
    from sT show "sorted (map f (rev rest))" by (simp add: T sorted_append)
  qed
  then have "rest = sort_reverse f (remove1 m ws)"
    by (simp add: sort_reverse_def)
  with fnd ne show ?thesis by simp
qed

lemma sort_reverse_Nil: "sort_reverse f ws = [] \<Longrightarrow> ws = []"
proof -
  assume "sort_reverse f ws = []"
  then have "length (sort_reverse f ws) = 0" by simp
  then show "ws = []" by (simp add: sort_reverse_def)
qed

lemma enqueue_refines:
  assumes "queue q = sort_reverse priority waiting"
  shows "fst (fst (enqueue utcnow q msg prio w)) = ''Q-'' @ strftime_YmdHMSf (fst (utcnow w)) \<and>
         queue (snd (fst (enqueue utcnow q msg prio w))) =
           sort_reverse priority (fst (spec_enqueue utcnow waiting msg prio w)) \<and>
         snd (enqueue utcnow q msg prio w) = snd (spec_enqueue utcnow waiting msg prio w)"
  using assms
  by (simp add: enqueue_def spec_enqueue_def sort_reverse_snoc Let_def split: prod.splits)

lemma dequeue_refines:
  assumes "queue q = sort_reverse priority waiting"
  shows "fst (fst (dequeue utcnow q w)) = fst (fst (spec_dequeue utcnow waiting w)) \<and>
         queue (snd (fst (dequeue utcnow q w))) =
           sort_reverse priority (snd (fst (spec_dequeue utcnow waiting w))) \<and>
         snd (dequeue utcnow q w) = snd (spec_dequeue utcnow waiting w)"
proof (cases "queue q")
  case Nil
  with assms have "sort_reverse priority waiting = []" by simp
  then have "waiting = []" by (rule sort_reverse_Nil)
  with Nil show ?thesis
    by (simp add: dequeue_def spec_dequeue_def spec_next_def sort_reverse_def)
next
  case (Cons m rest)
  with assms have "sort_reverse priority waiting = m # rest" by simp
  from sort_reverse_Cons[OF this]
  have "spec_next waiting = Some m" "rest = sort_reverse priority (remove1 m waiting)"
    by (simp_all add: spec_next_def highest_priority_def)
  with Cons show ?thesis
    by (simp add: dequeue_def spec_dequeue_def Let_def split: prod.splits)
qed

lemma run_queue_refines:
  assumes "queue q = sort_reverse priority waiting"
  shows "fst (fst (run_queue utcnow calls q w)) = fst (fst (spec_run utcnow calls waiting w)) \<and>
         queue (snd (fst (run_queue utcnow calls q w))) =
           sort_reverse priority (snd (fst (spec_run utcnow calls waiting w))) \<and>
         snd (run_queue utcnow calls q w) = snd (spec_run utcnow calls waiting w)"
  using assms
proof (induction calls arbitrary: q waiting w)
  case Nil
  then show ?case by simp
next
  case (Cons c calls)
  show ?case
  proof (cases c)
    case (Enqueue msg prio)
    obtain qid q1 w1 where e: "enqueue utcnow q msg prio w = ((qid, q1), w1)"
      by (metis surj_pair)
    obtain waiting1 w1' where s: "spec_enqueue utcnow waiting msg prio w = (waiting1, w1')"
      by (metis surj_pair)
    from enqueue_refines[OF Cons.prems, of utcnow msg prio w] e s
    have "queue q1 = sort_reverse priority waiting1" "w1' = w1" by simp_all
    with Cons.IH[of q1 waiting1 w1] e s Enqueue show ?thesis by simp
  next
    case Dequeue
    obtain m q1 w1 where d: "dequeue utcnow q w = ((m, q1), w1)"
      by (metis surj_pair)
    obtain m' waiting1 w1' where s: "spec_dequeue utcnow waiting w = ((m', waiting1), w1')"
      by (metis surj_pair)
    from dequeue_refines[OF Cons.prems, of utcnow w] d s
    have "queue q1 = sort_reverse priority waiting1" "w1' = w1" "m' = m" by simp_all
    with Cons.IH[of q1 waiting1 w1] d s Dequeue show ?thesis
      by (simp add: case_prod_beta)
  qed
qed

lemma queue_order_sort_reverse: "queue_order waiting (sort_reverse priority waiting)"
proof -
  have "filter (\<lambda>x. priority x = k) (sort_key priority (rev waiting)) =
        filter (\<lambda>x. priority x = k) (rev waiting)" for k
    by (rule sort_key_stable)
  from filter_rev_cong[OF this]
  have "filter (\<lambda>x. priority x = k) (sort_reverse priority waiting) =
        filter (\<lambda>x. priority x = k) waiting" for k
    by (simp add: sort_reverse_def)
  moreover have "sorted (rev (map priority (sort_reverse priority waiting)))"
    by (simp add: sort_reverse_def rev_map)
  moreover have "mset (sort_reverse priority waiting) = mset waiting"
    by (simp add: sort_reverse_def)
  ultimately show ?thesis
    by (simp add: queue_order_def list_all_iff)
qed

text \<open>
  C8. Whatever sequence of \<open>enqueue\<close> and \<open>dequeue\<close> calls is made on a fresh queue,
  the queue holds the waiting entries in descending priority, entries of equal priority
  in their arrival order, and the \<open>dequeue\<close> calls return (and remove) what the
  specification's queue returns: the earliest-arrived entry of the highest priority
  present, or \<open>None\<close> when nothing waits.
\<close>

theorem queue_is_priority_fifo:
  "fst (fst (run_queue utcnow calls init_queue w)) = fst (fst (spec_run utcnow calls [] w)) \<and>
   queue_order (snd (fst (spec_run utcnow calls [] w)))
     (queue (snd (fst (run_queue utcnow calls init_queue w))))"
proof -
  have "queue init_queue = sort_reverse priority []"
    by (simp add: init_queue_def sort_reverse_def)
  from run_queue_refines[OF this, of utcnow calls w] queue_order_sort_reverse
  show ?thesis by simp
qed


section \<open>HL7 validation and error propagation\<close>

text \<open>
  C7 (as the code has it). For every non-empty string that does not start with
  \<open>MSH\<close>, \<open>validate_message\<close> reports the message invalid, and the first error of
  its list is \<open>Message must start with MSH segment\<close>. The structural errors are
  settled before the library's parser is called and do not depend on it: whatever
  the parser does, its error (if it raises) is appended after them.
\<close>

theorem non_msh_message_invalid:
  assumes "hl7_string \<noteq> []" and "\<not> startswith hl7_string ''MSH''"
  shows "\<exists>structural. \<forall>lib_parse :: string \<Rightarrow> exn + 'm.
           validate_message lib_parse hl7_string =
             (False,
              ''Message must start with MSH segment'' # structural @
                (case lib_parse hl7_string of
                   Inl e \<Rightarrow> [''Parsing error: '' @ exn_str e]
                 | Inr m \<Rightarrow> []))"
proof -
  define structural where
    "structural =
       (if length (split_on (CHR 0x0D) hl7_string) < 2
        then [''Message must contain at least 2 segments''] else []) @
       segment_errors 0 (split_on (CHR 0x0D) hl7_string)"
  have "validate_message lib_parse hl7_string =
          (False,
           ''Message must start with MSH segment'' # structural @
             (case lib_parse hl7_string of
                Inl e \<Rightarrow> [''Parsing error: '' @ exn_str e]
              | Inr m \<Rightarrow> []))" for lib_parse :: "string \<Rightarrow> exn + 'm"
    using assms by (simp add: validate_message_def structural_def Let_def)
  then show ?thesis by blast
qed

lemma split_on_pid: "split_on (CHR 0x0D) ''PID|1'' = [''PID|1'']"
  by simp

lemma dec_1: "dec 1 = ''1''"
  by (simp add: dec.simps digit_def)

theorem non_msh_message_invalid_witness:
  "validate_message (\<lambda>s. Inl (Raised ''ParserError'' ''Invalid message'') :: exn + unit) ''PID|1'' =
     (False, [''Message must start with MSH segment'',
              ''Message must contain at least 2 segments'',
              ''Parsing error: Invalid message''])"
proof -
  have a: "''PID|1'' \<noteq> []" by simp
  have b: "\<not> startswith ''PID|1'' ''MSH''" by (simp add: startswith_def)
  have s: "segment_errors 0 [''PID|1''] = []"
    by (simp add: strip_def is_space_def isupper_def is_ascii_upper_def is_ascii_lower_def
        ascii_uppercase_def ascii_lowercase_def)
  from non_msh_message_invalid[OF a b, where 'm = unit] s
  show ?thesis
    by (simp add: validate_message_def split_on_pid startswith_def)
qed

text \<open>
  The claim C7 as stated, for every string that does not start with \<open>MSH\<close>, fails
  at the empty string: the validator returns at once with the single error
  \<open>Empty message\<close>.
\<close>

theorem empty_message_counterexample:
  "\<not> startswith [] ''MSH'' \<and>
   validate_message (\<lambda>s. Inl (Raised ''ParserError'' ''Invalid message'') :: exn + unit) [] =
     (False, [''Empty message''])"
  by (simp add: startswith_def validate_message_def)





section \<open>Properties of the patient context\<close>

lemma extract_summaries_empty: "extract_summaries f (JList []) = Inr (JList [])"
  by (simp add: extract_summaries_def bind_def)

lemma get_patient_context_no_allergies:
  assumes c: "cs (lower ehr) = Some c" and na: "get_allergies c = None"
    and p: "get_patient c pid w = (Inr patient, w1)"
    and m: "get_medications c pid w1 = (Inr medications, w2)"
    and o: "optional_call (get_conditions c) pid w2 = (conditions, w3)"
  shows "get_patient_context utcnow cs ehr pid w =
         (case bind (extract_patient_summary patient) (\<lambda>p.
               bind (extract_summaries medication_summary medications) (\<lambda>ms.
               bind (extract_summaries condition_summary conditions) (\<lambda>cds.
                 Inr (p, ms, cds)))) of
            Inl e \<Rightarrow> (Inl e, w3)
          | Inr (p, ms, cds) \<Rightarrow>
              (Inr (JDict [(''patient'', p), (''current_medications'', ms),
                           (''allergies'', JList []), (''conditions'', cds),
                           (''retrieved_at'', JStr (isoformat (fst (utcnow w3)))),
                           (''source_ehr'', JStr ehr)]), snd (utcnow w3)))"
  using c na p m o
  by (simp add: get_patient_context_def get_connector_def optional_call_def
      extract_summaries_empty bind_def case_prod_beta split: sum.splits)

lemma get_patient_context_allergies_value:
  assumes c: "cs (lower ehr) = Some c" and na: "get_allergies c = None"
    and r: "get_patient_context utcnow cs ehr pid w = (Inr ctx, w')"
  shows "get ctx ''allergies'' = Inr (JList [])"
proof -
  obtain rp w1 where p: "get_patient c pid w = (rp, w1)" by (metis surj_pair)
  obtain rm w2 where m: "get_medications c pid w1 = (rm, w2)" by (metis surj_pair)
  obtain conditions w3 where o: "optional_call (get_conditions c) pid w2 = (conditions, w3)"
    by (metis surj_pair)
  from r c p obtain patient where rp: "rp = Inr patient"
    by (cases rp) (auto simp: get_patient_context_def get_connector_def)
  from r c p m rp obtain medications where rm: "rm = Inr medications"
    by (cases rm) (auto simp: get_patient_context_def get_connector_def)
  from r get_patient_context_no_allergies[where cs=cs and ehr=ehr and utcnow=utcnow,
      OF c na p[unfolded rp] m[unfolded rm] o]
  show ?thesis
    by (auto simp: get_def split: sum.splits)
qed

lemma get_patient_context_same_as_empty:
  assumes c: "cs (lower ehr) = Some c" and na: "get_allergies c = None"
  shows "get_patient_context utcnow cs ehr pid w =
         get_patient_context utcnow
           (cs(lower ehr \<mapsto> c\<lparr>get_allergies := Some (\<lambda>p w. (Inr (JList []), w))\<rparr>)) ehr pid w"
  using c na
  by (simp add: get_patient_context_def get_connector_def optional_call_def
      extract_summaries_empty bind_def
      split: prod.splits sum.splits cong: prod.case_cong sum.case_cong)

text \<open>
  C9. For a registered connector without \<open>get_allergies\<close>: every patient context
  \<open>get_patient_context\<close> returns has \<open>allergies = []\<close>; the call behaves exactly as it
  does for the same connector with a \<open>get_allergies\<close> that returns \<open>[]\<close> (so the missing
  method is never a reason to raise); and the call does return a context whenever the
  two mandatory calls answer and the summaries of their answers (and of the conditions,
  if the connector has them) can be extracted.
\<close>

theorem missing_get_allergies_gives_empty_list:
  assumes c: "cs (lower ehr) = Some c" and na: "get_allergies c = None"
  shows "(\<forall>ctx w'. get_patient_context utcnow cs ehr pid w = (Inr ctx, w') \<longrightarrow>
            get ctx ''allergies'' = Inr (JList [])) \<and>
         get_patient_context utcnow cs ehr pid w =
           get_patient_context utcnow
             (cs(lower ehr \<mapsto> c\<lparr>get_allergies := Some (\<lambda>p w. (Inr (JList []), w))\<rparr>))
             ehr pid w \<and>
         (\<forall>patient w1 medications w2 conditions w3 p ms cds.
            get_patient c pid w = (Inr patient, w1) \<and>
            get_medications c pid w1 = (Inr medications, w2) \<and>
            optional_call (get_conditions c) pid w2 = (conditions, w3) \<and>
            extract_patient_summary patient = Inr p \<and>
            extract_summaries medication_summary medications = Inr ms \<and>
            extract_summaries condition_summary conditions = Inr cds \<longrightarrow>
            get_patient_context utcnow cs ehr pid w =
              (Inr (JDict [(''patient'', p), (''current_medications'', ms),
                           (''allergies'', JList []), (''conditions'', cds),
                           (''retrieved_at'', JStr (isoformat (fst (utcnow w3)))),
                           (''source_ehr'', JStr ehr)]), snd (utcnow w3)))"
proof (intro conjI allI impI)
  fix ctx w'
  assume "get_patient_context utcnow cs ehr pid w = (Inr ctx, w')"
  then show "get ctx ''allergies'' = Inr (JList [])"
    by (rule get_patient_context_allergies_value[where cs=cs and ehr=ehr, OF c na])
next
  show "get_patient_context utcnow cs ehr pid w =
           get_patient_context utcnow
             (cs(lower ehr \<mapsto> c\<lparr>get_allergies := Some (\<lambda>p w. (Inr (JList []), w))\<rparr>))
             ehr pid w"
    by (rule get_patient_context_same_as_empty[where cs=cs and ehr=ehr, OF c na])
next
  fix patient w1 medications w2 conditions w3 p ms cds
  assume a: "get_patient c pid w = (Inr patient, w1) \<and>
            get_medications c pid w1 = (Inr medications, w2) \<and>
            optional_call (get_conditions c) pid w2 = (conditions, w3) \<and>
            extract_patient_summary patient = Inr p \<and>
            extract_summaries medication_summary medications = Inr ms \<and>
            extract_summaries condition_summary conditions = Inr cds"
  from a have p1: "get_patient c pid w = (Inr patient, w1)"
    and p2: "get_medications c pid w1 = (Inr medications, w2)"
    and p3: "optional_call (get_conditions c) pid w2 = (conditions, w3)" by simp_all
  from get_patient_context_no_allergies[where cs=cs and ehr=ehr and utcnow=utcnow,
      OF c na p1 p2 p3] a
  show "get_patient_context utcnow cs ehr pid w =
              (Inr (JDict [(''patient'', p), (''current_medications'', ms),
                           (''allergies'', JList []), (''conditions'', cds),
                           (''retrieved_at'', JStr (isoformat (fst (utcnow w3)))),
                           (''source_ehr'', JStr ehr)]), snd (utcnow w3))"
    by (simp add: bind_def)
qed

lemma lower_cerner: "lower ''cerner'' = ''cerner''" "lower ''Cerner'' = ''cerner''"
  by (simp_all add: lower_def lower_char_def ascii_uppercase_def ascii_lowercase_def)

lemma example_patient_summary:
  "extract_patient_summary example_patient =
     Inr (JDict [(''id'', JStr ''12724066''), (''first_name'', JStr ''Nancy''),
                 (''last_name'', JStr ''Smart''), (''dob'', JStr ''1980-08-11''),
                 (''gender'', JStr ''female''), (''mrn'', JNull)])"
  by (simp add: extract_patient_summary_def example_patient_def bind_def get_def)

theorem missing_get_allergies_gives_empty_list_witness:
  "get_patient_context tick_clock plain_service ''cerner'' ''12724066'' 0 =
     (Inr (JDict [(''patient'',
                     JDict [(''id'', JStr ''12724066''), (''first_name'', JStr ''Nancy''),
                            (''last_name'', JStr ''Smart''), (''dob'', JStr ''1980-08-11''),
                            (''gender'', JStr ''female''), (''mrn'', JNull)]),
                  (''current_medications'', JList []),
                  (''allergies'', JList []),
                  (''conditions'', JList []),
                  (''retrieved_at'', JStr ''2025-01-30T12:00:02''),
                  (''source_ehr'', JStr ''cerner'')]), 3)"
proof -
  have c: "plain_service (lower ''cerner'') = Some plain_connector"
    by (simp add: plain_service_def register_connector_def lower_cerner)
  have na: "get_allergies plain_connector = None"
    by (simp add: plain_connector_def)
  have h: "get_patient plain_connector ''12724066'' 0 = (Inr example_patient, 1) \<and>
           get_medications plain_connector ''12724066'' 1 = (Inr (JList []), 2) \<and>
           optional_call (get_conditions plain_connector) ''12724066'' 2 = (JList [], 2) \<and>
           extract_patient_summary example_patient =
             Inr (JDict [(''id'', JStr ''12724066''), (''first_name'', JStr ''Nancy''),
                 (''last_name'', JStr ''Smart''), (''dob'', JStr ''1980-08-11''),
                 (''gender'', JStr ''female''), (''mrn'', JNull)]) \<and>
           extract_summaries medication_summary (JList []) = Inr (JList []) \<and>
           extract_summaries condition_summary (JList []) = Inr (JList [])"
    by (simp add: plain_connector_def optional_call_def example_patient_summary
        extract_summaries_empty)
  have t: "isoformat (fst (tick_clock 2)) = ''2025-01-30T12:00:02''" "snd (tick_clock 2) = 3"
    by (simp_all add: tick_clock_def isoformat_def pad_2 pad_4 digit_def)
  from missing_get_allergies_gives_empty_list[where cs=plain_service and ehr="''cerner''" and
      utcnow=tick_clock and pid="''12724066''" and w=0, OF c na] h t
  show ?thesis by force
qed


end
